theory Spec2Isabelle
  imports Main "HOL-Library.Sublist"
begin

section \<open>JavaScript values\<close>

text \<open>
  The values that reach \<open>rclone.js\<close> from its callers. Primitive values are
  \<open>undefined\<close>, \<open>null\<close>, booleans, numbers and strings; a number is modelled
  as an integer (the safe integers of a double, whose decimal form has no fraction and
  no exponent). A string is a list of 8-bit characters.

  An argument of an API call is a primitive, an array, or a plain object, that is an
  object literal whose prototype is \<open>Object.prototype\<close>. A plain object is given by
  its own enumerable properties, each key once, in the order \<open>Object.entries\<close>
  lists them; its property values are primitives (flag values and update options are
  strings, numbers and booleans).
\<close>

datatype prim = PUndefined | PNull | PBool bool | PNum int | PStr string

datatype jsval = JPrim prim | JArr "jsval list" | JObj "(string \<times> prim) list"

abbreviation JUndefined :: jsval where "JUndefined \<equiv> JPrim PUndefined"
abbreviation JStr :: "string \<Rightarrow> jsval" where "JStr s \<equiv> JPrim (PStr s)"

text \<open>\<open>typeof value\<close> on a primitive.\<close>

fun typeof :: "prim \<Rightarrow> string" where
  "typeof PUndefined = ''undefined''"
| "typeof PNull = ''object''"
| "typeof (PBool b) = ''boolean''"
| "typeof (PNum n) = ''number''"
| "typeof (PStr s) = ''string''"

text \<open>ToBoolean: \<open>undefined\<close>, \<open>null\<close>, \<open>false\<close>, \<open>0\<close> and the empty string are falsy.\<close>

fun truthy :: "prim \<Rightarrow> bool" where
  "truthy PUndefined = False"
| "truthy PNull = False"
| "truthy (PBool b) = b"
| "truthy (PNum n) = (n \<noteq> 0)"
| "truthy (PStr s) = (s \<noteq> [])"

fun truthy_val :: "jsval \<Rightarrow> bool" where
  "truthy_val (JPrim p) = truthy p"
| "truthy_val (JArr xs) = True"
| "truthy_val (JObj ps) = True"

text \<open>Decimal digits of a natural number, most significant first.\<close>

fun digits :: "nat \<Rightarrow> string" where
  "digits n = (if n < 10 then [''0123456789'' ! n]
               else digits (n div 10) @ [''0123456789'' ! (n mod 10)])"

declare digits.simps [simp del]

text \<open>
  ToString on a primitive, which is what a template literal \<open>`${ value }`\<close> and
  \<open>String(value)\<close> both apply.
\<close>

fun js_String :: "prim \<Rightarrow> string" where
  "js_String PUndefined = ''undefined''"
| "js_String PNull = ''null''"
| "js_String (PBool b) = (if b then ''true'' else ''false'')"
| "js_String (PNum n) = (if n < 0 then ''-'' @ digits (nat (- n)) else digits (nat n))"
| "js_String (PStr s) = s"

section \<open>Platform resolver (rclone.js, lines 6 to 36)\<close>

text \<open>
  Both \<open>switch\<close> statements are kept as data: each clause has its \<open>case\<close> labels
  (none for \<open>default\<close>), the string it assigns to the variable, if any, and whether it
  ends in \<open>break\<close>. A JavaScript \<open>switch\<close> compares the discriminant, evaluated
  once, with the labels in order, enters the first clause that matches (or
  \<open>default\<close>), and runs the statements from there on through the following clauses
  until a \<open>break\<close>.
\<close>

datatype clause = Case "string list" "string option" bool | Default "string option" bool

fun enters :: "clause \<Rightarrow> string \<Rightarrow> bool" where
  "enters (Case labels a b) d = (d \<in> set labels)"
| "enters (Default a b) d = True"

fun assigns :: "clause \<Rightarrow> string option" where
  "assigns (Case labels a b) = a"
| "assigns (Default a b) = a"

fun breaks :: "clause \<Rightarrow> bool" where
  "breaks (Case labels a b) = b"
| "breaks (Default a b) = b"

text \<open>Run the statements of the clauses from the entered one until a \<open>break\<close>.\<close>

fun run_clauses :: "clause list \<Rightarrow> string \<Rightarrow> string" where
  "run_clauses [] v = v"
| "run_clauses (c # cs) v =
     (let v' = (case assigns c of None \<Rightarrow> v | Some s \<Rightarrow> s)
      in if breaks c then v' else run_clauses cs v')"

text \<open>
  \<open>switch_on cs d v\<close>: the value of the variable after the \<open>switch\<close> with
  discriminant \<open>d\<close>, the variable holding \<open>v\<close> before. The \<open>default\<close> clause is
  the last one in both statements of the source.
\<close>

fun switch_on :: "clause list \<Rightarrow> string \<Rightarrow> string \<Rightarrow> string" where
  "switch_on [] d v = v"
| "switch_on (c # cs) d v = (if enters c d then run_clauses (c # cs) v else switch_on cs d v)"

definition platform_switch :: "clause list" where
  "platform_switch =
     [Case [''darwin''] (Some ''osx'') True,
      Case [''freebsd'', ''linux'', ''openbsd''] None True,
      Case [''sunos''] (Some ''solaris'') False,
      Case [''win32''] (Some ''windows'') False,
      Default None True]"

definition arch_switch :: "clause list" where
  "arch_switch =
     [Case [''arm'', ''arm64'', ''mips'', ''mipsel''] None True,
      Case [''x32''] (Some ''386'') False,
      Case [''x64''] (Some ''amd64'') False,
      Default None True]"

text \<open>The module-level variables \<open>platform\<close> and \<open>arch\<close> after both statements.\<close>

definition resolve_platform :: "string \<Rightarrow> string" where
  "resolve_platform p = switch_on platform_switch p p"

definition resolve_arch :: "string \<Rightarrow> string" where
  "resolve_arch a = switch_on arch_switch a a"

section \<open>Executable location (rclone.js, lines 38 to 42)\<close>

text \<open>
  What the module reads from its surroundings when it is loaded: \<open>__dirname\<close>,
  the environment variable \<open>RCLONE_EXECUTABLE\<close> (absent or a string),
  \<open>process.platform\<close> and \<open>process.arch\<close>.
\<close>

record config =
  dirname :: string
  env_RCLONE_EXECUTABLE :: "string option"
  process_platform :: string
  process_arch :: string

text \<open>\<open>path.join\<close> of two segments that need no normalisation, with the POSIX separator.\<close>

definition path_join :: "string \<Rightarrow> string \<Rightarrow> string" where
  "path_join a b = a @ ''/'' @ b"

definition platform :: "config \<Rightarrow> string" where
  "platform cfg = resolve_platform (process_platform cfg)"

definition arch :: "config \<Rightarrow> string" where
  "arch cfg = resolve_arch (process_arch cfg)"

definition RCLONE_DIR :: "config \<Rightarrow> string" where
  "RCLONE_DIR cfg = path_join (dirname cfg) ''bin''"

definition DEFAULT_RCLONE_EXECUTABLE :: "config \<Rightarrow> string" where
  "DEFAULT_RCLONE_EXECUTABLE cfg =
     path_join (RCLONE_DIR cfg) (''rclone'' @ (if platform cfg = ''windows'' then ''.exe'' else []))"

definition RCLONE_EXECUTABLE :: "config \<Rightarrow> string" where
  "RCLONE_EXECUTABLE cfg =
     (case env_RCLONE_EXECUTABLE cfg of None \<Rightarrow> DEFAULT_RCLONE_EXECUTABLE cfg | Some p \<Rightarrow> p)"

section \<open>Flag marshalling and process invocation (rclone.js, lines 52 to 70)\<close>

text \<open>
  \<open>spawn(file, args)\<close> starts a process and returns its handle; the handle is
  modelled by the call that created it. The argument vector holds the values as the
  module passes them to \<open>spawn\<close>.
\<close>

datatype child_process = Spawn (executable: string) (argv: "jsval list")

text \<open>\<open>args.pop()\<close>: removes and returns the last element, \<open>undefined\<close> on an empty array.\<close>

definition pop :: "jsval list \<Rightarrow> jsval \<times> jsval list" where
  "pop args = (if args = [] then (JUndefined, []) else (last args, butlast args))"

text \<open>
  \<open>flags.constructor === Object\<close>, for a truthy \<open>flags\<close>. The property lookup finds
  an own property \<open>constructor\<close> first, whose value here is a primitive and so not
  the function \<open>Object\<close>; without one, a plain object inherits
  \<open>Object.prototype.constructor\<close>, which is \<open>Object\<close>. An array inherits
  \<open>Array\<close>, a number, string or boolean \<open>Number\<close>, \<open>String\<close> or \<open>Boolean\<close>.
\<close>

fun constructor_is_Object :: "jsval \<Rightarrow> bool" where
  "constructor_is_Object (JObj ps) = (map_of ps ''constructor'' = None)"
| "constructor_is_Object (JArr xs) = False"
| "constructor_is_Object (JPrim p) = False"

text \<open>\<open>Object.entries(flags)\<close>, called on a plain object only.\<close>

fun entries :: "jsval \<Rightarrow> (string \<times> prim) list" where
  "entries (JObj ps) = ps"
| "entries (JArr xs) = []"
| "entries (JPrim p) = []"

text \<open>The body of the \<open>forEach\<close> callback, with \<open>args\<close> passed through.\<close>

fun push_flag :: "jsval list \<Rightarrow> string \<times> prim \<Rightarrow> jsval list" where
  "push_flag args (key, value) =
     (let key' = (if value = PBool False then ''no-'' @ key else key);
          args' = args @ [JStr (''--'' @ key')]
      in if typeof value \<noteq> ''boolean'' then args' @ [JStr (js_String value)] else args')"

definition api :: "config \<Rightarrow> jsval list \<Rightarrow> child_process" where
  "api cfg args0 =
     (let (flags, args) = pop args0
      in if truthy_val flags \<and> constructor_is_Object flags
         then Spawn (RCLONE_EXECUTABLE cfg) (foldl push_flag args (entries flags))
         else Spawn (RCLONE_EXECUTABLE cfg) (args @ [flags]))"

section \<open>Promises\<close>

text \<open>
  An error object, and what a promise of this module is rejected with: an error object
  or a buffer. A promise is pending or settled; \<open>resolve\<close> and \<open>reject\<close> settle a
  pending promise and leave a settled one as it is. A buffer is the string of its bytes.
\<close>

datatype js_error = Error string

datatype reason = RError js_error | RBuffer string

datatype 'a promise = Pending | Fulfilled 'a | Rejected reason

fun resolve :: "'a promise \<Rightarrow> 'a \<Rightarrow> 'a promise" where
  "resolve Pending v = Fulfilled v"
| "resolve (Fulfilled u) v = Fulfilled u"
| "resolve (Rejected r) v = Rejected r"

fun reject :: "'a promise \<Rightarrow> reason \<Rightarrow> 'a promise" where
  "reject Pending r = Rejected r"
| "reject (Fulfilled u) r = Fulfilled u"
| "reject (Rejected q) r = Rejected q"

section \<open>Promise-based API (rclone.js, lines 73 to 97)\<close>

text \<open>
  The events a subprocess delivers to the listeners that \<open>promises\<close> registers, and
  the state the listeners share: the two chunk arrays and the promise.
\<close>

datatype process_event =
  OnError js_error | StdoutData string | StdoutEnd | StderrData string | StderrEnd

record listeners =
  stdout :: "string list"
  stderr :: "string list"
  promise :: "string promise"

fun on_event :: "listeners \<Rightarrow> process_event \<Rightarrow> listeners" where
  "on_event s (OnError e) = s\<lparr>promise := reject (promise s) (RError e)\<rparr>"
| "on_event s (StdoutData chunk) = s\<lparr>stdout := stdout s @ [chunk]\<rparr>"
| "on_event s StdoutEnd = s\<lparr>promise := resolve (promise s) (concat (stdout s))\<rparr>"
| "on_event s (StderrData chunk) = s\<lparr>stderr := stderr s @ [chunk]\<rparr>"
| "on_event s StderrEnd =
     (if length (stderr s) \<noteq> 0
      then s\<lparr>promise := reject (promise s) (RBuffer (concat (stderr s)))\<rparr> else s)"

definition listening :: listeners where
  "listening = \<lparr>stdout = [], stderr = [], promise = Pending\<rparr>"

text \<open>
  \<open>promises cfg args evs\<close>: the subprocess that the call spawns, and the promise it
  returns once the subprocess has delivered the events \<open>evs\<close>.
\<close>

definition promises :: "config \<Rightarrow> jsval list \<Rightarrow> process_event list \<Rightarrow> child_process \<times> string promise" where
  "promises cfg args evs =
     (let subprocess = api cfg args
      in (subprocess, promise (foldl on_event listening evs)))"

section \<open>Command surface (rclone.js, lines 146 to 240)\<close>

definition COMMANDS :: "string list" where
  "COMMANDS =
     [''about'', ''authorize'', ''backend'', ''cat'',
      ''check'', ''cleanup'', ''config'', ''config create'',
      ''config delete'', ''config disconnect'', ''config dump'', ''config edit'',
      ''config file'', ''config password'', ''config providers'', ''config reconnect'',
      ''config show'', ''config update'', ''config userinfo'', ''copy'',
      ''copyto'', ''copyurl'', ''cryptcheck'', ''cryptdecode'',
      ''dedupe'', ''delete'', ''deletefile'', ''genautocomplete'',
      ''genautocomplete bash'', ''genautocomplete fish'', ''genautocomplete zsh'', ''gendocs'',
      ''hashsum'', ''link'', ''listremotes'', ''ls'',
      ''lsd'', ''lsf'', ''lsjson'', ''lsl'',
      ''md5sum'', ''mkdir'', ''mount'', ''move'',
      ''moveto'', ''ncdu'', ''obscure'', ''purge'',
      ''rc'', ''rcat'', ''rcd'', ''rmdir'',
      ''rmdirs'', ''serve'', ''serve dlna'', ''serve ftp'',
      ''serve http'', ''serve restic'', ''serve sftp'', ''serve webdav'',
      ''settier'', ''sha1sum'', ''size'', ''sync'',
      ''touch'', ''tree'', ''version'']"

text \<open>
  The properties that \<open>COMMANDS.forEach\<close> defines on \<open>api\<close> and on
  \<open>promises\<close>: one function for each name, keyed by the name.
\<close>

definition api_properties :: "config \<Rightarrow> (string \<times> (jsval list \<Rightarrow> child_process)) list" where
  "api_properties cfg =
     map (\<lambda>commandName. (commandName, \<lambda>args. api cfg (JStr commandName # args))) COMMANDS"

definition promises_properties ::
  "config \<Rightarrow> (string \<times> (jsval list \<Rightarrow> process_event list \<Rightarrow> child_process \<times> string promise)) list" where
  "promises_properties cfg =
     map (\<lambda>commandName. (commandName, \<lambda>args. promises cfg (JStr commandName # args))) COMMANDS"

section \<open>Fetching a URL (rclone.js, lines 244 to 254)\<close>

text \<open>
  The events of one \<open>https.get\<close> request: the response arrives, the response
  delivers a chunk, the response ends, or the transfer fails with an error object. A
  request has at most one response. \<open>get\<close> passes a callback for the response, which
  registers a listener for \<open>data\<close> and one for \<open>end\<close> on it; the source registers
  no listener for \<open>error\<close> and never calls \<open>reject\<close>.
\<close>

datatype http_event = Response | Data string | End | TransferError js_error

record request =
  responded :: bool
  chunks :: "string list"
  settled :: "string promise"

fun get_on :: "request \<Rightarrow> http_event \<Rightarrow> request" where
  "get_on s Response = s\<lparr>responded := True, chunks := []\<rparr>"
| "get_on s (Data chunk) = (if responded s then s\<lparr>chunks := chunks s @ [chunk]\<rparr> else s)"
| "get_on s End =
     (if responded s then s\<lparr>settled := resolve (settled s) (concat (chunks s))\<rparr> else s)"
| "get_on s (TransferError e) = s"

definition requested :: request where
  "requested = \<lparr>responded = False, chunks = [], settled = Pending\<rparr>"

section \<open>The world of the installer\<close>

text \<open>
  The installer reads and writes the file system, writes to the console and fetches
  URLs. A file has its bytes and its permission bits; \<open>fetched\<close> lists the URLs
  requested so far, in order.
\<close>

record file_node =
  content :: string
  mode :: nat

record world =
  files :: "string \<rightharpoonup> file_node"
  console :: "string list"
  fetched :: "string list"

text \<open>
  What lies outside the module: for each URL the events its request delivers, and the
  entries that \<open>new AdmZip(archive).getEntries()\<close> reads from the bytes of an
  archive, or the error the library throws on bytes it cannot parse.
\<close>

record entry =
  name :: string
  entryName :: string
  getData :: string

record outside =
  https_get :: "string \<Rightarrow> http_event list"
  AdmZip :: "string \<Rightarrow> js_error + entry list"

definition get :: "outside \<Rightarrow> string \<Rightarrow> world \<Rightarrow> string promise \<times> world" where
  "get out url w =
     (settled (foldl get_on requested (https_get out url)), w\<lparr>fetched := fetched w @ [url]\<rparr>)"

definition console_log :: "string \<Rightarrow> world \<Rightarrow> world" where
  "console_log line w = w\<lparr>console := console w @ [line]\<rparr>"

definition existsSync :: "string \<Rightarrow> world \<Rightarrow> bool" where
  "existsSync path w = (files w path \<noteq> None)"

text \<open>\<open>chmodSync(path, mode)\<close> throws when nothing exists at the path.\<close>

definition chmodSync :: "string \<Rightarrow> nat \<Rightarrow> world \<Rightarrow> js_error \<times> world + world" where
  "chmodSync path m w =
     (case files w path of
        None \<Rightarrow> Inl (Error ''ENOENT'', w)
      | Some f \<Rightarrow> Inr (w\<lparr>files := (files w)(path \<mapsto> f\<lparr>mode := m\<rparr>)\<rparr>))"

text \<open>
  \<open>zip.extractEntryTo(entry, targetPath, false, true)\<close> on a file entry: without the
  entry's directories and overwriting, the library writes the entry's bytes to the file
  named by the entry's base name in the target directory, with the permission bits
  \<open>rw-rw-rw-\<close> (438) of a file it creates.
\<close>

definition extractEntryTo :: "entry \<Rightarrow> string \<Rightarrow> world \<Rightarrow> world" where
  "extractEntryTo e targetPath w =
     w\<lparr>files := (files w)(path_join targetPath (name e) \<mapsto> \<lparr>content = getData e, mode = 438\<rparr>)\<rparr>"

text \<open>
  \<open>p.then(f)\<close>, once \<open>p\<close> has the state given: a fulfilled promise runs the
  callback on its value, and the promise returned is fulfilled with what the callback
  returns (here \<open>undefined\<close>) or rejected with what it throws; the world keeps what
  the callback did before it threw.
\<close>

fun then_promise ::
  "string promise \<Rightarrow> (string \<Rightarrow> world \<Rightarrow> js_error \<times> world + world) \<Rightarrow> world \<Rightarrow> unit promise \<times> world" where
  "then_promise Pending f w = (Pending, w)"
| "then_promise (Rejected r) f w = (Rejected r, w)"
| "then_promise (Fulfilled v) f w =
     (case f v w of Inl (e, w') \<Rightarrow> (Rejected (RError e), w') | Inr w' \<Rightarrow> (Fulfilled (), w'))"

section \<open>Self-update (rclone.js, lines 103 to 144)\<close>

text \<open>
  The regular expression \<open>/rclone(\.exe)?$/\<close>. \<open>match_at s\<close> matches it at the
  start of \<open>s\<close>: the letters \<open>rclone\<close>, then the group or nothing, then the end of
  the input. \<open>test\<close> tries every start position.
\<close>

definition match_at :: "string \<Rightarrow> bool" where
  "match_at s =
     (prefix ''rclone'' s \<and>
      (let r = drop 6 s in (prefix ''.exe'' r \<and> drop 4 r = []) \<or> r = []))"

definition regex_test :: "string \<Rightarrow> bool" where
  "regex_test s = list_ex match_at (suffixes s)"

text \<open>\<open>s.replace(pattern, replacement)\<close> with a string pattern: the first occurrence only.\<close>

fun replace :: "string \<Rightarrow> string \<Rightarrow> string \<Rightarrow> string" where
  "replace [] pattern replacement = (if pattern = [] then replacement else [])"
| "replace (c # s) pattern replacement =
     (if prefix pattern (c # s) then replacement @ drop (length pattern) (c # s)
      else c # replace s pattern replacement)"

text \<open>The body of the \<open>forEach\<close> callback over the entries of the archive.\<close>

definition install_entry :: "config \<Rightarrow> entry \<Rightarrow> world \<Rightarrow> js_error \<times> world + world" where
  "install_entry cfg e w =
     (if regex_test (name e)
      then (case chmodSync (DEFAULT_RCLONE_EXECUTABLE cfg) 493 (extractEntryTo e (RCLONE_DIR cfg) w) of
              Inl err \<Rightarrow> Inl err
            | Inr w' \<Rightarrow>
                Inr (console_log (replace (entryName e) (''/'' @ name e) [] @ '' is installed.'') w'))
      else Inr w)"

text \<open>\<open>forEach\<close>: the callback on each entry in order; an exception ends the loop.\<close>

fun install_entries :: "config \<Rightarrow> entry list \<Rightarrow> world \<Rightarrow> js_error \<times> world + world" where
  "install_entries cfg [] w = Inr w"
| "install_entries cfg (e # es) w =
     (case install_entry cfg e w of Inl err \<Rightarrow> Inl err | Inr w' \<Rightarrow> install_entries cfg es w')"

text \<open>The callback that \<open>selfupdate\<close> passes to \<open>then\<close> for the archive.\<close>

definition extract_archive :: "config \<Rightarrow> outside \<Rightarrow> string \<Rightarrow> world \<Rightarrow> js_error \<times> world + world" where
  "extract_archive cfg out archive w =
     (let w1 = console_log ''Extracting rclone...'' w
      in case AdmZip out archive of
           Inl err \<Rightarrow> Inl (err, w1)
         | Inr es \<Rightarrow> install_entries cfg es w1)"

text \<open>
  Reading one of the properties \<open>beta\<close>, \<open>stable\<close>, \<open>version\<close> and \<open>check\<close> of
  \<open>options\<close>, none of which a prototype has: the own property of a plain object,
  \<open>undefined\<close> on an array and on a boolean, a number or a string. The default of a
  destructuring pattern replaces \<open>undefined\<close> only.
\<close>

fun property :: "jsval \<Rightarrow> string \<Rightarrow> prim" where
  "property (JObj ps) key = (case map_of ps key of None \<Rightarrow> PUndefined | Some v \<Rightarrow> v)"
| "property (JArr xs) key = PUndefined"
| "property (JPrim p) key = PUndefined"

definition with_default :: "prim \<Rightarrow> prim \<Rightarrow> prim" where
  "with_default v d = (if v = PUndefined then d else v)"

text \<open>What \<open>selfupdate\<close> returns: a subprocess or a promise.\<close>

datatype returned = ChildProcess child_process | Promise "unit promise"

text \<open>
  \<open>selfupdate cfg out options w\<close>: the exception thrown, or the value returned with
  the world after the request, if any, has delivered its events. The parameter default
  replaces \<open>undefined\<close> by the empty object; destructuring \<open>null\<close> throws a
  TypeError.
\<close>

definition selfupdate :: "config \<Rightarrow> outside \<Rightarrow> jsval \<Rightarrow> world \<Rightarrow> js_error + returned \<times> world" where
  "selfupdate cfg out options0 w =
     (let options = (if options0 = JUndefined then JObj [] else options0)
      in if options = JPrim PNull then Inl (Error ''TypeError'')
      else
        let beta = with_default (property options ''beta'') (PBool False);
            stable = with_default (property options ''stable'') (PBool (\<not> truthy beta));
            version = property options ''version'';
            check = with_default (property options ''check'') (PBool False)
        in if existsSync (RCLONE_EXECUTABLE cfg) w
           then Inr (ChildProcess (api cfg [JStr ''selfupdate'', options]), w)
           else
             let baseUrl = (if truthy stable then ''https://downloads.rclone.org''
                            else ''https://beta.rclone.org'');
                 channel = (if truthy stable then ''current'' else ''beta-latest'')
             in if truthy check
                then let (p, w1) = get out (baseUrl @ ''/version.txt'') w;
                         (q, w2) = then_promise p
                           (\<lambda>version. \<lambda>w. Inr (console_log (''The latest version is '' @ version) w)) w1
                     in Inr (Promise q, w2)
                else
                  let w1 = console_log ''Downloading rclone...'' w;
                      archiveName =
                        (if truthy version
                         then js_String version @ ''/rclone-'' @ js_String version
                         else ''rclone-'' @ channel);
                      (p, w2) = get out (baseUrl @ ''/'' @ archiveName @ ''-'' @ platform cfg
                                         @ ''-'' @ arch cfg @ ''.zip'') w1;
                      (q, w3) = then_promise p (extract_archive cfg out) w2
                  in Inr (Promise q, w3))"

section \<open>The specification's own words\<close>

text \<open>
  The tokens that the specification of the Flag Marshaller lists for one entry of a Flag
  Set: \<open>--no-<key>\<close> alone for the value \<open>false\<close>, \<open>--<key>\<close> alone for the
  value \<open>true\<close>, and otherwise \<open>--<key>\<close> followed by \<open>String(value)\<close>.
\<close>

fun flag_tokens :: "string \<times> prim \<Rightarrow> jsval list" where
  "flag_tokens (key, value) =
     (if value = PBool False then [JStr (''--no-'' @ key)]
      else if value = PBool True then [JStr (''--'' @ key)]
      else [JStr (''--'' @ key), JStr (js_String value)])"



text \<open>
  The download host that the specification of the installer gives: \<open>stable\<close> is the
  option of that name when it is given and the negation of \<open>beta\<close> otherwise, and
  the host is the stable one when \<open>stable\<close> holds and the beta one otherwise.
\<close>

definition stable_option :: "jsval \<Rightarrow> bool" where
  "stable_option options =
     (if property options ''stable'' = PUndefined then \<not> truthy (property options ''beta'')
      else truthy (property options ''stable''))"

definition download_host :: "jsval \<Rightarrow> string" where
  "download_host options =
     (if stable_option options then ''https://downloads.rclone.org''
      else ''https://beta.rclone.org'')"



section \<open>A concrete installation\<close>

text \<open>
  A module loaded from \<open>/app\<close> on 64-bit Linux without the environment variable, the
  world in which nothing is installed yet, and the world in which the executable is.
\<close>

definition linux_x64 :: config where
  "linux_x64 =
     \<lparr>dirname = ''/app'', env_RCLONE_EXECUTABLE = None,
      process_platform = ''linux'', process_arch = ''x64''\<rparr>"

definition empty_world :: world where
  "empty_world = \<lparr>files = Map.empty, console = [], fetched = []\<rparr>"

definition installed_world :: world where
  "installed_world =
     \<lparr>files = [''/app/bin/rclone'' \<mapsto> \<lparr>content = ''ELF'', mode = 493\<rparr>],
      console = [], fetched = []\<rparr>"

text \<open>
  A release server: \<open>version.txt\<close> on the stable host arrives in two chunks, every
  other URL delivers an archive of two bytes, which the library reads as the archive of
  a release for 64-bit Linux (a manual and the executable in one directory).
\<close>

definition release_entries :: "entry list" where
  "release_entries =
     [\<lparr>name = ''README.txt'', entryName = ''rclone-v1.2.3-linux-amd64/README.txt'',
       getData = ''manual''\<rparr>,
      \<lparr>name = ''rclone'', entryName = ''rclone-v1.2.3-linux-amd64/rclone'',
       getData = ''ELF''\<rparr>]"

definition release_server :: outside where
  "release_server =
     \<lparr>https_get = (\<lambda>url. if url = ''https://downloads.rclone.org/version.txt''
                        then [Response, Data ''v1.2'', Data ''.3'', End]
                        else [Response, Data ''PK'', End]),
      AdmZip = (\<lambda>archive. if archive = ''PK'' then Inr release_entries
                        else Inl (Error ''Invalid or unsupported zip format''))\<rparr>"

section \<open>Platform resolver\<close>

text \<open>What the two \<open>switch\<close> statements compute, for every name.\<close>

lemma resolve_platform_cases:
  "resolve_platform p =
     (if p = ''darwin'' then ''osx''
      else if p = ''sunos'' \<or> p = ''win32'' then ''windows'' else p)"
  by (simp add: resolve_platform_def platform_switch_def)

lemma resolve_arch_cases:
  "resolve_arch a = (if a = ''x32'' \<or> a = ''x64'' then ''amd64'' else a)"
  by (simp add: resolve_arch_def arch_switch_def)

text \<open>
  Claim C2: the resolver maps the operating system \<open>sunos\<close> to \<open>solaris\<close> and the
  architecture \<open>x32\<close> to \<open>386\<close>. The source assigns both names, but neither clause
  ends in \<open>break\<close>, so the clause below it runs as well and overwrites the name:
  \<open>sunos\<close> resolves to \<open>windows\<close> and \<open>x32\<close> to \<open>amd64\<close>.
\<close>

theorem sunos_and_x32_fall_through:
  "resolve_platform ''sunos'' = ''windows'' \<and> resolve_arch ''x32'' = ''amd64''"
  by (simp add: resolve_platform_def platform_switch_def resolve_arch_def arch_switch_def)

section \<open>Flag marshalling\<close>

lemma pop_snoc: "pop (xs @ [x]) = (x, xs)"
  by (simp add: pop_def)

lemma push_flag_tokens: "push_flag args kv = args @ flag_tokens kv"
  by (cases kv; cases "snd kv") (auto simp: Let_def)

lemma foldl_push_flag: "foldl push_flag args ps = args @ concat (map flag_tokens ps)"
  by (induction ps arbitrary: args) (simp_all add: push_flag_tokens)

lemma digits_1: "digits (Suc 0) = ''1''"
  by (simp add: digits.simps)

lemma linux_x64_executable: "RCLONE_EXECUTABLE linux_x64 = ''/app/bin/rclone''"
  by (simp add: RCLONE_EXECUTABLE_def DEFAULT_RCLONE_EXECUTABLE_def RCLONE_DIR_def
      path_join_def platform_def resolve_platform_cases linux_x64_def)

text \<open>
  Claim C9: a call of the direct API with no argument does not spawn the executable with
  an empty argument vector. \<open>pop\<close> on the empty array returns \<open>undefined\<close>, which is
  falsy and so not a flag object, and the \<open>else\<close> branch pushes it back: the
  argument vector passed to \<open>spawn\<close> has the one element \<open>undefined\<close>.
\<close>

theorem api_no_arguments:
  "pop [] = (JUndefined, []) \<and> \<not> truthy_val JUndefined
   \<and> api cfg [] = Spawn (RCLONE_EXECUTABLE cfg) [JUndefined]"
  by (simp add: api_def pop_def)

text \<open>
  Claim C5: when the last argument is processed as a Flag Set, the argument vector is the
  positional arguments followed by the tokens of the entries in iteration order, where
  an entry with value \<open>false\<close> gives the one token \<open>--no-<key>\<close>, an entry with
  value \<open>true\<close> the one token \<open>--<key>\<close>, and any other entry the two tokens
  \<open>--<key>\<close> and \<open>String(value)\<close>.
\<close>

theorem flag_set_marshalled:
  "constructor_is_Object (JObj flags) \<Longrightarrow>
   api cfg (positional @ [JObj flags]) =
     Spawn (RCLONE_EXECUTABLE cfg) (positional @ concat (map flag_tokens flags))"
  by (simp add: api_def pop_snoc foldl_push_flag)

theorem flag_set_marshalled_witness:
  "constructor_is_Object
     (JObj [(''max-depth'', PNum 1), (''dry-run'', PBool True), (''checksum'', PBool False)])
   \<and> api linux_x64 [JStr ''ls'', JStr ''source:'',
         JObj [(''max-depth'', PNum 1), (''dry-run'', PBool True), (''checksum'', PBool False)]] =
       Spawn ''/app/bin/rclone''
         [JStr ''ls'', JStr ''source:'', JStr ''--max-depth'', JStr ''1'', JStr ''--dry-run'',
          JStr ''--no-checksum'']"
  using flag_set_marshalled
    [of "[(''max-depth'', PNum 1), (''dry-run'', PBool True), (''checksum'', PBool False)]"
      linux_x64 "[JStr ''ls'', JStr ''source:'']"]
  by (simp add: linux_x64_executable digits_1)

text \<open>
  Claim C6, as amended: the marshaller inspects the last element only. A plain object
  that has no own property named \<open>constructor\<close> is removed from the positional list
  and expanded as the Flag Set; every other last element, which includes \<open>null\<close>,
  \<open>undefined\<close>, arrays, strings, numbers, booleans and a plain object that has an own
  property named \<open>constructor\<close>, is kept in place and no flag token is appended.
\<close>

theorem last_argument_classified:
  "api cfg (positional @ [v]) =
     Spawn (RCLONE_EXECUTABLE cfg)
       (case v of
          JObj flags \<Rightarrow>
            if map_of flags ''constructor'' = None
            then positional @ concat (map flag_tokens flags)
            else positional @ [v]
        | JArr xs \<Rightarrow> positional @ [v]
        | JPrim p \<Rightarrow> positional @ [v])"
  by (cases v) (simp_all add: api_def pop_snoc foldl_push_flag)

text \<open>
  The claim as the specification states it fails for a plain object with the key
  \<open>constructor\<close>: \<open>flags.constructor\<close> is then the value of that key and not
  \<open>Object\<close>, so the object stays in the argument vector and no token
  \<open>--constructor\<close> is emitted.
\<close>

theorem constructor_key_counterexample:
  "argv (api linux_x64 [JStr ''ls'', JObj [(''constructor'', PStr ''x'')]]) =
     [JStr ''ls'', JObj [(''constructor'', PStr ''x'')]]
   \<and> argv (api linux_x64 [JStr ''ls'', JObj [(''constructor'', PStr ''x'')]]) \<noteq>
     [JStr ''ls''] @ concat (map flag_tokens [(''constructor'', PStr ''x'')])"
  by (simp add: api_def pop_def)

section \<open>Command surface\<close>

lemma api_Cons:
  "args \<noteq> [] \<Longrightarrow> argv (api cfg (x # args)) = x # argv (api cfg args)"
  by (simp add: api_def pop_def foldl_push_flag split: prod.splits)

lemma api_single_string: "argv (api cfg [JStr s]) = [JStr s]"
  by (simp add: api_def pop_def)

lemma api_command_argv:
  "argv (api cfg (JStr s # args)) = JStr s # (if args = [] then [] else argv (api cfg args))"
  by (simp add: api_Cons api_single_string)

lemma map_of_properties:
  "n \<in> set ns \<Longrightarrow> map_of (map (\<lambda>k. (k, f k)) ns) n = Some (f n)"
  by (induction ns) auto

lemma config_create_listed: "''config create'' \<in> set COMMANDS"
  by (simp add: COMMANDS_def)

text \<open>
  Claim C10: for every name of the catalog, and so for every name of several words, the
  entry point registered under the name on the direct API and the one on the
  promise-based API spawn the executable with the whole name as the first element of the
  argument vector, one token, followed by what the marshaller makes of the caller's
  arguments.
\<close>

theorem command_name_single_token:
  "commandName \<in> set COMMANDS \<Longrightarrow>
   (\<exists>f. map_of (api_properties cfg) commandName = Some f \<and>
        (\<forall>args. argv (f args) =
           JStr commandName # (if args = [] then [] else argv (api cfg args))))
   \<and> (\<exists>g. map_of (promises_properties cfg) commandName = Some g \<and>
        (\<forall>args evs. argv (fst (g args evs)) =
           JStr commandName # (if args = [] then [] else argv (api cfg args))))"
  by (simp add: api_properties_def promises_properties_def map_of_properties
      api_command_argv promises_def Let_def)

theorem command_name_single_token_witness:
  "''config create'' \<in> set COMMANDS
   \<and> (\<exists>f. map_of (api_properties linux_x64) ''config create'' = Some f \<and>
        argv (f [JStr ''remote'', JStr ''drive'']) =
          [JStr ''config create'', JStr ''remote'', JStr ''drive''])
   \<and> (\<exists>g. map_of (promises_properties linux_x64) ''config create'' = Some g \<and>
        argv (fst (g [JStr ''remote'', JStr ''drive''] [])) =
          [JStr ''config create'', JStr ''remote'', JStr ''drive''])"
proof -
  have listed: "''config create'' \<in> set COMMANDS"
    by (rule config_create_listed)
  have rest: "argv (api linux_x64 [JStr ''remote'', JStr ''drive'']) = [JStr ''remote'', JStr ''drive'']"
    by (simp add: api_def pop_def)
  from command_name_single_token [OF listed, of linux_x64]
  obtain f g where
    f: "map_of (api_properties linux_x64) ''config create'' = Some f"
       "\<forall>args. argv (f args) =
           JStr ''config create'' # (if args = [] then [] else argv (api linux_x64 args))"
    and g: "map_of (promises_properties linux_x64) ''config create'' = Some g"
       "\<forall>args evs. argv (fst (g args evs)) =
           JStr ''config create'' # (if args = [] then [] else argv (api linux_x64 args))"
    by blast
  from f(2) rest have "argv (f [JStr ''remote'', JStr ''drive'']) =
          [JStr ''config create'', JStr ''remote'', JStr ''drive'']" by simp
  moreover from g(2) rest have "argv (fst (g [JStr ''remote'', JStr ''drive''] [])) =
          [JStr ''config create'', JStr ''remote'', JStr ''drive'']" by simp
  ultimately show ?thesis using listed f(1) g(1) by blast
qed

section \<open>Promise-based API\<close>









text \<open>The two examples of the specification: output alone, and standard error alone.\<close>

lemma stdout_resolves_with_hello:
  "snd (promises cfg args [StdoutData ''hello'', StdoutEnd, StderrEnd]) = Fulfilled ''hello''"
  by (simp add: promises_def listening_def)

lemma stderr_rejects_with_boom:
  "snd (promises cfg args [StderrData ''boom'', StderrEnd, StdoutEnd]) = Rejected (RBuffer ''boom'')"
  by (simp add: promises_def listening_def)

section \<open>Fetching\<close>

lemma get_on_not_rejected:
  "settled s \<noteq> Rejected r \<Longrightarrow> settled (get_on s ev) \<noteq> Rejected r"
  by (cases ev; cases "settled s") simp_all

lemma foldl_get_on_not_rejected:
  "settled s \<noteq> Rejected r \<Longrightarrow> settled (foldl get_on s evs) \<noteq> Rejected r"
  by (induction evs arbitrary: s) (simp_all add: get_on_not_rejected)

lemma foldl_get_on_data:
  "responded s \<Longrightarrow> foldl get_on s (map Data cs) = s\<lparr>chunks := chunks s @ cs\<rparr>"
  by (induction cs arbitrary: s) simp_all

lemma get_response_body:
  "https_get out url = Response # map Data body @ [End] \<Longrightarrow>
   get out url w = (Fulfilled (concat body), w\<lparr>fetched := fetched w @ [url]\<rparr>)"
  by (simp add: get_def requested_def foldl_get_on_data)

text \<open>
  Claim C3: when the transfer of a fetch fails, the promise of the fetch is rejected with
  the transport error. The source registers no listener for the error and never calls
  \<open>reject\<close>: whatever events the request delivers, the promise that \<open>get\<close> returns
  is never rejected, and when the transfer fails before a response the promise stays
  pending.
\<close>

theorem get_never_rejects:
  "fst (get out url w) \<noteq> Rejected r
   \<and> fst (get (out\<lparr>https_get := \<lambda>u. [TransferError e]\<rparr>) url w) = Pending"
  by (simp add: get_def foldl_get_on_not_rejected requested_def)

section \<open>Self-update\<close>

text \<open>
  Claim C1: the self-updater returns a promise for every options value, also when an
  executable exists at the resolved location. In that state the source returns what
  \<open>api("selfupdate", options)\<close> returns, which is the subprocess and not a promise.
\<close>

theorem selfupdate_delegate_returns_child_process:
  "existsSync (RCLONE_EXECUTABLE cfg) w \<Longrightarrow> options \<noteq> JPrim PNull \<Longrightarrow>
   selfupdate cfg out options w =
     Inr (ChildProcess
            (api cfg [JStr ''selfupdate'', if options = JUndefined then JObj [] else options]), w)"
  by (simp add: selfupdate_def Let_def)

theorem selfupdate_delegate_returns_child_process_witness:
  "existsSync (RCLONE_EXECUTABLE linux_x64) installed_world
   \<and> JObj [(''check'', PBool True)] \<noteq> JPrim PNull
   \<and> selfupdate linux_x64 release_server (JObj [(''check'', PBool True)]) installed_world =
       Inr (ChildProcess (Spawn ''/app/bin/rclone'' [JStr ''selfupdate'', JStr ''--check'']),
            installed_world)"
proof -
  have present: "existsSync (RCLONE_EXECUTABLE linux_x64) installed_world"
    by (simp add: existsSync_def linux_x64_executable installed_world_def)
  have given: "JObj [(''check'', PBool True)] \<noteq> JPrim PNull"
    by simp
  have forwarded:
    "api linux_x64 [JStr ''selfupdate'', JObj [(''check'', PBool True)]] =
       Spawn ''/app/bin/rclone'' [JStr ''selfupdate'', JStr ''--check'']"
    by (simp add: api_def pop_def linux_x64_executable)
  from selfupdate_delegate_returns_child_process [OF present given, of release_server] forwarded
  show ?thesis using present by simp
qed

lemma selfupdate_baseUrl:
  "(if truthy (with_default (property options ''stable'')
                 (PBool (\<not> truthy (with_default (property options ''beta'') (PBool False)))))
    then ''https://downloads.rclone.org'' else ''https://beta.rclone.org'') =
   download_host options"
  by (simp add: download_host_def stable_option_def with_default_def)

text \<open>
  Claim C8: when no executable exists at the resolved location and \<open>options.check\<close> is
  \<open>true\<close>, the installer fetches \<open>version.txt\<close> from the download host, which is
  the stable host when \<open>stable\<close> holds and the beta host otherwise, \<open>stable\<close>
  being the negation of \<open>beta\<close> unless it is given; when the response delivers its
  body, the installer writes the version text to the console and the promise is
  fulfilled. Nothing else is fetched and no file is written.
\<close>

theorem selfupdate_check_reports_version:
  assumes absent: "\<not> existsSync (RCLONE_EXECUTABLE cfg) w"
    and check: "property options ''check'' = PBool True"
    and body: "https_get out (download_host options @ ''/version.txt'') =
                 Response # map Data body @ [End]"
  shows "selfupdate cfg out options w =
           Inr (Promise (Fulfilled ()),
                w\<lparr>fetched := fetched w @ [download_host options @ ''/version.txt''],
                  console := console w @ [''The latest version is '' @ concat body]\<rparr>)"
proof -
  from check have opts: "options \<noteq> JUndefined" "options \<noteq> JPrim PNull"
    by auto
  from check have chk: "truthy (with_default (property options ''check'') (PBool False))"
    by (simp add: with_default_def)
  show ?thesis
    using absent opts chk
    by (simp add: selfupdate_def Let_def selfupdate_baseUrl get_response_body [OF body]
        console_log_def)
qed

theorem selfupdate_check_reports_version_witness:
  "\<not> existsSync (RCLONE_EXECUTABLE linux_x64) empty_world
   \<and> property (JObj [(''check'', PBool True), (''beta'', PBool False)]) ''check'' = PBool True
   \<and> selfupdate linux_x64 release_server
        (JObj [(''check'', PBool True), (''beta'', PBool False)]) empty_world =
       Inr (Promise (Fulfilled ()),
            \<lparr>files = Map.empty, console = [''The latest version is v1.2.3''],
             fetched = [''https://downloads.rclone.org/version.txt'']\<rparr>)"
proof -
  have absent: "\<not> existsSync (RCLONE_EXECUTABLE linux_x64) empty_world"
    by (simp add: existsSync_def empty_world_def)
  have check: "property (JObj [(''check'', PBool True), (''beta'', PBool False)]) ''check'' = PBool True"
    by simp
  have host: "download_host (JObj [(''check'', PBool True), (''beta'', PBool False)]) =
      ''https://downloads.rclone.org''"
    by (simp add: download_host_def stable_option_def)
  have body: "https_get release_server
       (download_host (JObj [(''check'', PBool True), (''beta'', PBool False)]) @ ''/version.txt'') =
      Response # map Data [''v1.2'', ''.3''] @ [End]"
    by (simp add: host release_server_def)
  from selfupdate_check_reports_version [OF absent check body] host
  show ?thesis using absent check by (simp add: empty_world_def)
qed

section \<open>Extraction\<close>

lemma match_at_iff: "match_at s \<longleftrightarrow> s = ''rclone'' \<or> s = ''rclone.exe''"
  by (auto simp: match_at_def prefix_def Let_def)

lemma regex_test_iff: "regex_test s \<longleftrightarrow> suffix ''rclone'' s \<or> suffix ''rclone.exe'' s"
  by (auto simp: regex_test_def list_ex_iff in_set_suffixes match_at_iff)

lemma install_entry_skip:
  "\<not> regex_test (name e) \<Longrightarrow> install_entry cfg e w = Inr w"
  by (simp add: install_entry_def)







lemma install_entry_throws:
  assumes "regex_test (name e)"
    and "files w (DEFAULT_RCLONE_EXECUTABLE cfg) = None"
    and "path_join (RCLONE_DIR cfg) (name e) \<noteq> DEFAULT_RCLONE_EXECUTABLE cfg"
  shows "\<exists>err w1. install_entry cfg e w = Inl (err, w1)"
  using assms
  by (auto simp: install_entry_def chmodSync_def extractEntryTo_def)










lemma install_entries_throws:
  assumes "find (\<lambda>e. regex_test (name e)) es = Some e"
    and "files w (DEFAULT_RCLONE_EXECUTABLE cfg) = None"
    and "path_join (RCLONE_DIR cfg) (name e) \<noteq> DEFAULT_RCLONE_EXECUTABLE cfg"
  shows "\<exists>err w'. install_entries cfg es w = Inl (err, w')"
  using assms
proof (induction es)
  case Nil
  then show ?case by simp
next
  case (Cons x es)
  show ?case
  proof (cases "regex_test (name x)")
    case True
    with Cons.prems have "x = e" by simp
    with install_entry_throws [OF True Cons.prems(2)] Cons.prems(3)
    show ?thesis by auto
  next
    case False
    with Cons show ?thesis by (simp add: install_entry_skip)
  qed
qed






lemma linux_x64_paths:
  "RCLONE_DIR linux_x64 = ''/app/bin''"
  "DEFAULT_RCLONE_EXECUTABLE linux_x64 = ''/app/bin/rclone''"
  by (simp_all add: DEFAULT_RCLONE_EXECUTABLE_def RCLONE_DIR_def
      path_join_def platform_def resolve_platform_def platform_switch_def linux_x64_def)



section \<open>A first installation, end to end\<close>

lemma selfupdate_null_throws:
  "selfupdate cfg out (JPrim PNull) w = Inl (Error ''TypeError'')"
  by (simp add: selfupdate_def)

lemma linux_x64_arch: "platform linux_x64 = ''linux''" "arch linux_x64 = ''amd64''"
  by (simp_all add: platform_def arch_def resolve_platform_cases resolve_arch_cases linux_x64_def)

lemma release_archive_installs:
  "extract_archive linux_x64 release_server ''PK'' w =
     Inr (w\<lparr>files := (files w)(''/app/bin/rclone'' \<mapsto> \<lparr>content = ''ELF'', mode = 493\<rparr>),
            console := console w @ [''Extracting rclone...'', ''rclone-v1.2.3-linux-amd64 is installed.'']\<rparr>)"
  by (simp add: extract_archive_def release_server_def release_entries_def install_entry_def
      regex_test_iff suffix_to_prefix chmodSync_def extractEntryTo_def console_log_def
      linux_x64_paths path_join_def)

text \<open>
  Without options and with nothing installed, the installer fetches the current stable
  archive for the platform, extracts the executable and reports it.
\<close>

lemma selfupdate_installs_release:
  "selfupdate linux_x64 release_server JUndefined empty_world =
     Inr (Promise (Fulfilled ()),
          \<lparr>files = [''/app/bin/rclone'' \<mapsto> \<lparr>content = ''ELF'', mode = 493\<rparr>],
           console = [''Downloading rclone...'', ''Extracting rclone...'',
                      ''rclone-v1.2.3-linux-amd64 is installed.''],
           fetched = [''https://downloads.rclone.org/rclone-current-linux-amd64.zip'']\<rparr>)"
proof -
  have absent: "\<not> existsSync (RCLONE_EXECUTABLE linux_x64) empty_world"
    by (simp add: existsSync_def empty_world_def)
  have fetch: "get release_server ''https://downloads.rclone.org/rclone-current-linux-amd64.zip'' w =
      (Fulfilled ''PK'', w\<lparr>fetched := fetched w @ [''https://downloads.rclone.org/rclone-current-linux-amd64.zip'']\<rparr>)" for w
    by (simp add: get_def release_server_def requested_def)
  show ?thesis
    using absent
    by (simp add: selfupdate_def with_default_def linux_x64_arch fetch release_archive_installs
        console_log_def empty_world_def)
qed

end
